theory Spec2Isabelle
  imports Complex_Main
begin

section \<open>The mascot camera page (src/app/page.tsx)\<close>

text \<open>
  The page keeps three pieces of React state: the overlay (\<open>mascot\<close>), the camera
  permission flag (\<open>permissionGranted\<close>) and the captured photo (\<open>capturedImage\<close>).

  Modelling decisions:
  \<^item> the gesture handlers compute with JavaScript numbers, which are IEEE doubles. Their
    arithmetic is not fixed here: the handlers take it as a parameter (\<open>number_ops\<close>) over
    an arbitrary type of numbers, so what is proved of them holds for doubles, with their
    rounding, underflow, infinities and \<open>NaN\<close>. \<open>exact_numbers\<close> is the arithmetic of the
    reals; it is used for concrete inputs, chosen so that doubles compute the same values;
  \<^item> \<open>number | null\<close> is an \<open>option\<close>, and a JavaScript truthiness test is written out;
  \<^item> a handler is a closure of the last render. It reads the rendered snapshot \<open>mascot\<close>
    and queues an updater of the current state \<open>prev\<close>; the two differ when an event is
    handled before the state left by the previous one has been rendered. Both are
    arguments of \<open>handleTouchMove\<close>, and re-rendering is an event of its own (\<open>Render\<close>);
  \<^item> \<open>e.preventDefault()\<close> and \<open>console.error\<close> do not touch the state and are left out.
\<close>

subsection \<open>Numbers\<close>

text \<open>
  The operations on numbers that the handlers use: number literals, \<open>+\<close>, \<open>-\<close>, \<open>*\<close>,
  \<open>/\<close>, \<open>Math.sqrt\<close>, \<open>Math.pow(x, 2)\<close> and the truthiness of a number.
\<close>

record 'n number_ops =
  num_lit :: "real \<Rightarrow> 'n"
  num_add :: "'n \<Rightarrow> 'n \<Rightarrow> 'n"
  num_sub :: "'n \<Rightarrow> 'n \<Rightarrow> 'n"
  num_mul :: "'n \<Rightarrow> 'n \<Rightarrow> 'n"
  num_div :: "'n \<Rightarrow> 'n \<Rightarrow> 'n"
  num_sqrt :: "'n \<Rightarrow> 'n"
  num_pow2 :: "'n \<Rightarrow> 'n"
  num_truthy :: "'n \<Rightarrow> bool"

definition exact_numbers :: "real number_ops" where
  "exact_numbers =
     \<lparr> num_lit = (\<lambda>r. r),
       num_add = (\<lambda>a b. a + b),
       num_sub = (\<lambda>a b. a - b),
       num_mul = (\<lambda>a b. a * b),
       num_div = (\<lambda>a b. a / b),
       num_sqrt = sqrt,
       num_pow2 = (\<lambda>a. a ^ 2),
       num_truthy = (\<lambda>a. a \<noteq> 0) \<rparr>"

subsection \<open>Data\<close>

text \<open>The object type \<open>{ x: number; y: number }\<close>; its fields are \<open>px\<close> and \<open>py\<close> here.\<close>

record 'n point =
  px :: 'n
  py :: 'n

text \<open>A contact point of a \<open>React.TouchList\<close>; only the client coordinates are read.\<close>

record 'n touch =
  clientX :: 'n
  clientY :: 'n

record 'n Mascot =
  position :: "'n point"
  scale :: 'n
  initialDistance :: "'n option"
  isDragging :: bool
  isPinching :: bool
  lastPosition :: "'n point"

definition initialMascot :: "'n number_ops \<Rightarrow> 'n Mascot" where
  "initialMascot ops =
     \<lparr> position = \<lparr> px = num_lit ops 50, py = num_lit ops 50 \<rparr>,
       scale = num_lit ops (1 / 2),
       initialDistance = None,
       isDragging = False,
       isPinching = False,
       lastPosition = \<lparr> px = num_lit ops 0, py = num_lit ops 0 \<rparr> \<rparr>"

subsection \<open>The gesture handlers\<close>

text \<open>
  \<open>getDistance\<close>: \<open>touches[0]\<close> and \<open>touches[1]\<close> are \<open>undefined\<close> when the list is
  shorter, and then the result is 0.
\<close>

fun getDistance :: "'n number_ops \<Rightarrow> 'n touch list \<Rightarrow> 'n" where
  "getDistance ops (touch1 # touch2 # rest) =
     num_sqrt ops
       (num_add ops (num_pow2 ops (num_sub ops (clientX touch2) (clientX touch1)))
                    (num_pow2 ops (num_sub ops (clientY touch2) (clientY touch1))))"
| "getDistance ops touches = num_lit ops 0"

definition handleTouchStart :: "'n number_ops \<Rightarrow> 'n touch list \<Rightarrow> 'n Mascot \<Rightarrow> 'n Mascot" where
  "handleTouchStart ops touches prev =
     (if length touches = 1 then
        (case touches of
           t0 # rest \<Rightarrow>
             prev\<lparr> isDragging := True,
                   lastPosition := \<lparr> px = clientX t0, py = clientY t0 \<rparr> \<rparr>
         | [] \<Rightarrow> prev)
      else if length touches = 2 then
        prev\<lparr> isPinching := True, initialDistance := Some (getDistance ops touches) \<rparr>
      else prev)"

text \<open>\<open>if (mascot.initialDistance)\<close>: \<open>null\<close> is falsy, a number as the platform says.\<close>

fun truthy_number :: "'n number_ops \<Rightarrow> 'n option \<Rightarrow> bool" where
  "truthy_number ops None = False"
| "truthy_number ops (Some d) = num_truthy ops d"

text \<open>
  \<open>prev.initialDistance!\<close> as a divisor: the \<open>!\<close> is erased at run time, and \<open>null\<close> is
  converted to the number 0.
\<close>

fun to_number :: "'n number_ops \<Rightarrow> 'n option \<Rightarrow> 'n" where
  "to_number ops None = num_lit ops 0"
| "to_number ops (Some d) = d"

text \<open>
  \<open>handleTouchMove\<close>. The guards, \<open>dx\<close>, \<open>dy\<close> and the truthiness test read the rendered
  snapshot \<open>mascot\<close>; the additions and the division are in the updater and read \<open>prev\<close>.
\<close>

definition handleTouchMove :: "'n number_ops \<Rightarrow> 'n Mascot \<Rightarrow> 'n touch list \<Rightarrow> 'n Mascot \<Rightarrow> 'n Mascot" where
  "handleTouchMove ops mascot touches prev =
     (if isDragging mascot \<and> length touches = 1 then
        (case touches of
           t # rest \<Rightarrow>
             (let dx = num_sub ops (clientX t) (px (lastPosition mascot));
                  dy = num_sub ops (clientY t) (py (lastPosition mascot))
              in prev\<lparr> position := \<lparr> px = num_add ops (px (position prev)) dx,
                                      py = num_add ops (py (position prev)) dy \<rparr>,
                       lastPosition := \<lparr> px = clientX t, py = clientY t \<rparr> \<rparr>)
         | [] \<Rightarrow> prev)
      else if isPinching mascot \<and> length touches = 2 then
        (let newDistance = getDistance ops touches
         in if truthy_number ops (initialDistance mascot) then
              prev\<lparr> scale := num_mul ops (scale prev)
                                (num_div ops newDistance (to_number ops (initialDistance prev))),
                    initialDistance := Some newDistance \<rparr>
            else prev)
      else prev)"

definition handleTouchEnd :: "'n Mascot \<Rightarrow> 'n Mascot" where
  "handleTouchEnd prev =
     prev\<lparr> isDragging := False, isPinching := False, initialDistance := None \<rparr>"

subsection \<open>Touch events and rendering\<close>

text \<open>
  The three touch events of the camera view. Each carries \<open>e.touches\<close>, the contact
  points on the screen after the event; \<open>handleTouchEnd\<close> does not read it.
\<close>

datatype 'n touch_event =
  TouchStart "'n touch list" | TouchMove "'n touch list" | TouchEnd "'n touch list"

text \<open>
  The overlay as the handlers meet it: \<open>rendered\<close> is the snapshot of the last render,
  which the handlers close over, and \<open>current\<close> the state that the queued updaters have
  produced. \<open>Render\<close> makes the current state the snapshot.
\<close>

record 'n view =
  rendered :: "'n Mascot"
  current :: "'n Mascot"

datatype 'n view_event = Handle "'n touch_event" | Render

fun view_step :: "'n number_ops \<Rightarrow> 'n view \<Rightarrow> 'n view_event \<Rightarrow> 'n view" where
  "view_step ops v (Handle (TouchStart touches)) =
     v\<lparr> current := handleTouchStart ops touches (current v) \<rparr>"
| "view_step ops v (Handle (TouchMove touches)) =
     v\<lparr> current := handleTouchMove ops (rendered v) touches (current v) \<rparr>"
| "view_step ops v (Handle (TouchEnd touches)) =
     v\<lparr> current := handleTouchEnd (current v) \<rparr>"
| "view_step ops v Render = v\<lparr> rendered := current v \<rparr>"

definition view_run :: "'n number_ops \<Rightarrow> 'n view \<Rightarrow> 'n view_event list \<Rightarrow> 'n view" where
  "view_run ops v es = foldl (view_step ops) v es"

definition initial_view :: "'n number_ops \<Rightarrow> 'n view" where
  "initial_view ops = \<lparr> rendered = initialMascot ops, current = initialMascot ops \<rparr>"

subsection \<open>Gestures\<close>



text \<open>
  The moves of a pinch, two contact points each; the flag says whether a render comes
  before the move.
\<close>

fun pinch_events :: "(bool \<times> 'n touch \<times> 'n touch) list \<Rightarrow> 'n view_event list" where
  "pinch_events [] = []"
| "pinch_events ((r, a, b) # ps) =
     (if r then [Render] else []) @ Handle (TouchMove [a, b]) # pinch_events ps"

definition pair_distances :: "'n number_ops \<Rightarrow> (bool \<times> 'n touch \<times> 'n touch) list \<Rightarrow> 'n list" where
  "pair_distances ops ps = map (\<lambda>(r, a, b). getDistance ops [a, b]) ps"

text \<open>The ratios \<open>distance\<^sub>i / distance\<^sub>i\<^sub>-\<^sub>1\<close> of a list of distances after a baseline.\<close>

fun ratios :: "'n number_ops \<Rightarrow> 'n \<Rightarrow> 'n list \<Rightarrow> 'n list" where
  "ratios ops d [] = []"
| "ratios ops d (e # es) = num_div ops e d # ratios ops e es"

text \<open>
  Whether, in a list of events, a touch-start carrying \<open>k\<close> contact points has been
  handled since the last touch-end; \<open>b\<close> is the answer before the list.
\<close>

fun start_seen :: "nat \<Rightarrow> bool \<Rightarrow> 'n view_event list \<Rightarrow> bool" where
  "start_seen k b [] = b"
| "start_seen k b (Handle (TouchStart touches) # es) = start_seen k (b \<or> length touches = k) es"
| "start_seen k b (Handle (TouchMove touches) # es) = start_seen k b es"
| "start_seen k b (Handle (TouchEnd touches) # es) = start_seen k False es"
| "start_seen k b (Render # es) = start_seen k b es"

text \<open>
  A set \<open>P\<close> of numbers that holds the literals 0 and 0.5 and every \<open>Math.pow(x, 2)\<close> and
  is closed under \<open>+\<close>, \<open>*\<close>, \<open>/\<close> and \<open>Math.sqrt\<close>. For doubles, the numbers that are
  not negative form such a set: +0, the positive numbers, +Infinity and \<open>NaN\<close>.
\<close>

definition sign_closed :: "'n number_ops \<Rightarrow> ('n \<Rightarrow> bool) \<Rightarrow> bool" where
  "sign_closed ops P =
     (P (num_lit ops 0) \<and> P (num_lit ops (1 / 2)) \<and>
      (\<forall>a. P (num_pow2 ops a)) \<and>
      (\<forall>a b. P a \<longrightarrow> P b \<longrightarrow> P (num_add ops a b)) \<and>
      (\<forall>a b. P a \<longrightarrow> P b \<longrightarrow> P (num_mul ops a b)) \<and>
      (\<forall>a b. P a \<longrightarrow> P b \<longrightarrow> P (num_div ops a b)) \<and>
      (\<forall>a. P a \<longrightarrow> P (num_sqrt ops a)))"

subsection \<open>Camera setup\<close>

text \<open>
  What \<open>setupCamera\<close> finds: whether \<open>navigator.mediaDevices.getUserMedia\<close> exists, and
  how the awaited request ends, with a stream (\<open>Inr\<close>) or by throwing (\<open>Inl\<close>).
\<close>

record camera_env =
  hasGetUserMedia :: bool
  getUserMedia :: "string + nat"

text \<open>The arguments of the calls of \<open>setPermissionGranted\<close> that \<open>setupCamera\<close> makes, in order.\<close>

definition setupCamera_calls :: "camera_env \<Rightarrow> bool list" where
  "setupCamera_calls env =
     (if \<not> hasGetUserMedia env then [False]
      else (case getUserMedia env of
              Inr stream \<Rightarrow> [True]
            | Inl err \<Rightarrow> [False]))"

subsection \<open>The page\<close>

record page_state =
  mascot :: "real Mascot"
  permissionGranted :: "bool option"
  capturedImage :: "string option"

definition initialState :: page_state where
  "initialState =
     \<lparr> mascot = initialMascot exact_numbers, permissionGranted = None, capturedImage = None \<rparr>"

text \<open>
  \<open>setupCamera\<close> runs once, from the mount effect (its dependency list is empty). Binding
  the stream to the video element is outside the state modelled here.
\<close>

definition setupCamera :: "camera_env \<Rightarrow> page_state \<Rightarrow> page_state" where
  "setupCamera env st =
     foldl (\<lambda>s granted. s\<lparr> permissionGranted := Some granted \<rparr>) st (setupCamera_calls env)"

subsection \<open>Capture\<close>

text \<open>
  The elements behind the three refs. \<open>getBoundingClientRect\<close> gives a rectangle of which
  only width and height are read. The canvas is described by its pixel size and by the
  \<open>drawImage\<close> calls made on its bitmap since it was last cleared; \<open>currentFrame\<close> names
  the video frame being shown. \<open>getContext2d\<close> says whether \<open>getContext('2d')\<close> returns a
  context.
\<close>

record rect =
  width :: real
  height :: real

record video_el =
  videoRect :: rect
  currentFrame :: nat

record image_el =
  imageRect :: rect
  src :: string

datatype image_source = VideoSource nat | ImageSource string

datatype draw_op = DrawImage image_source real real real real

record canvas_el =
  canvas_width :: nat
  canvas_height :: nat
  bitmap :: "draw_op list"
  getContext2d :: bool

record refs =
  videoRef :: "video_el option"
  imageRef :: "image_el option"
  canvasRef :: "canvas_el option"

text \<open>
  Assigning a number to \<open>canvas.width\<close> or \<open>canvas.height\<close> keeps its integer part
  (on-screen sizes are not negative) and clears the bitmap.
\<close>

definition set_canvas_size :: "real \<Rightarrow> real \<Rightarrow> canvas_el \<Rightarrow> canvas_el" where
  "set_canvas_size w h canvas =
     canvas\<lparr> canvas_width := nat \<lfloor>w\<rfloor>, canvas_height := nat \<lfloor>h\<rfloor>, bitmap := [] \<rparr>"

definition drawImage :: "image_source \<Rightarrow> real \<Rightarrow> real \<Rightarrow> real \<Rightarrow> real \<Rightarrow> canvas_el \<Rightarrow> canvas_el" where
  "drawImage source dx dy dw dh canvas =
     canvas\<lparr> bitmap := bitmap canvas @ [DrawImage source dx dy dw dh] \<rparr>"

text \<open>
  \<open>handleCapture\<close>. The platform's \<open>canvas.toDataURL('image/png')\<close> is the parameter
  \<open>toDataURL\<close>. The result is the refs with the canvas as the handler leaves it, and the
  new page state.
\<close>

definition handleCapture :: "(canvas_el \<Rightarrow> string) \<Rightarrow> refs \<Rightarrow> page_state \<Rightarrow> refs \<times> page_state" where
  "handleCapture toDataURL r st =
     (case (videoRef r, imageRef r, canvasRef r) of
        (Some video, Some img, Some canvas) \<Rightarrow>
          (let vRect = videoRect video;
               canvas1 = set_canvas_size (width vRect) (height vRect) canvas
           in if getContext2d canvas1 then
                (let canvas2 = drawImage (VideoSource (currentFrame video)) 0 0
                                 (real (canvas_width canvas1)) (real (canvas_height canvas1)) canvas1;
                     iRect = imageRect img;
                     s = scale (mascot st);
                     w = width iRect * s;
                     h = height iRect * s;
                     x = px (position (mascot st)) - w / 2;
                     y = py (position (mascot st)) - h / 2;
                     canvas3 = drawImage (ImageSource (src img)) x y w h canvas2;
                     dataUrl = toDataURL canvas3
                 in (r\<lparr> canvasRef := Some canvas3 \<rparr>, st\<lparr> capturedImage := Some dataUrl \<rparr>))
              else (r\<lparr> canvasRef := Some canvas1 \<rparr>, st))
      | _ \<Rightarrow> (r, st))"

subsection \<open>Download and retake\<close>

text \<open>The DOM operations of \<open>handleDownload\<close>, in order.\<close>

datatype dom_action =
  CreateElement string | SetHref string | SetDownload string | AppendChild | Click | RemoveChild

text \<open>\<open>if (capturedImage)\<close>: \<open>null\<close> and the empty string are falsy.\<close>

fun truthy_string :: "string option \<Rightarrow> bool" where
  "truthy_string None = False"
| "truthy_string (Some s) = (s \<noteq> [])"

definition handleDownload :: "page_state \<Rightarrow> dom_action list" where
  "handleDownload st =
     (if truthy_string (capturedImage st) then
        (case capturedImage st of
           Some url \<Rightarrow>
             [CreateElement ''a'', SetHref url, SetDownload ''mascot-photo.png'',
              AppendChild, Click, RemoveChild]
         | None \<Rightarrow> [])
      else [])"

definition handleBackToCamera :: "page_state \<Rightarrow> page_state" where
  "handleBackToCamera st = st\<lparr> capturedImage := None \<rparr>"

subsection \<open>The page as a transition system\<close>

text \<open>
  The events of the page after mount. A capture carries the refs as they are when the
  button is pressed. \<open>handleDownload\<close> sets no state. This system is used for the
  permission and the captured image, which no touch handler writes; in it a touch event is
  handled on the rendered state, in exact arithmetic.
\<close>

fun gesture_step :: "real Mascot \<Rightarrow> real touch_event \<Rightarrow> real Mascot" where
  "gesture_step m (TouchStart touches) = handleTouchStart exact_numbers touches m"
| "gesture_step m (TouchMove touches) = handleTouchMove exact_numbers m touches m"
| "gesture_step m (TouchEnd touches) = handleTouchEnd m"

datatype event = Touch "real touch_event" | Capture refs | Download | BackToCamera

fun step :: "(canvas_el \<Rightarrow> string) \<Rightarrow> page_state \<Rightarrow> event \<Rightarrow> page_state" where
  "step toDataURL st (Touch e) = st\<lparr> mascot := gesture_step (mascot st) e \<rparr>"
| "step toDataURL st (Capture r) = snd (handleCapture toDataURL r st)"
| "step toDataURL st Download = st"
| "step toDataURL st BackToCamera = handleBackToCamera st"

definition run :: "(canvas_el \<Rightarrow> string) \<Rightarrow> page_state \<Rightarrow> event list \<Rightarrow> page_state" where
  "run toDataURL st es = foldl (step toDataURL) st es"

subsection \<open>Sample inputs\<close>

abbreviation touch_at :: "real \<Rightarrow> real \<Rightarrow> real touch" where
  "touch_at cx cy \<equiv> \<lparr> clientX = cx, clientY = cy \<rparr>"

abbreviation sample_refs :: refs where
  "sample_refs \<equiv>
     \<lparr> videoRef = Some \<lparr> videoRect = \<lparr> width = 400, height = 600 \<rparr>, currentFrame = 7 \<rparr>,
       imageRef = Some \<lparr> imageRect = \<lparr> width = 100, height = 80 \<rparr>, src = ''/drever_general.jpg'' \<rparr>,
       canvasRef = Some \<lparr> canvas_width = 300, canvas_height = 150, bitmap = [],
                           getContext2d = True \<rparr> \<rparr>"

section \<open>Properties\<close>

subsection \<open>Handlers, one event at a time\<close>

lemma exact_numbers_simps [simp]:
  "num_lit exact_numbers r = r"
  "num_add exact_numbers a b = a + b"
  "num_sub exact_numbers a b = a - b"
  "num_mul exact_numbers a b = a * b"
  "num_div exact_numbers a b = a / b"
  "num_sqrt exact_numbers a = sqrt a"
  "num_pow2 exact_numbers a = a ^ 2"
  "num_truthy exact_numbers a = (a \<noteq> 0)"
  by (simp_all add: exact_numbers_def)


lemma start_two_touches:
  "handleTouchStart ops [a, b] m =
     m\<lparr> isPinching := True, initialDistance := Some (getDistance ops [a, b]) \<rparr>"
  by (simp add: handleTouchStart_def)

lemma start_flags:
  "isDragging (handleTouchStart ops touches m) = (isDragging m \<or> length touches = 1)"
  "isPinching (handleTouchStart ops touches m) = (isPinching m \<or> length touches = 2)"
  by (auto simp: handleTouchStart_def split: list.splits)

lemma move_flags:
  "isDragging (handleTouchMove ops snap touches m) = isDragging m"
  "isPinching (handleTouchMove ops snap touches m) = isPinching m"
  by (simp_all add: handleTouchMove_def Let_def split: list.splits)

lemma end_flags:
  "isDragging (handleTouchEnd m) = False"
  "isPinching (handleTouchEnd m) = False"
  by (simp_all add: handleTouchEnd_def)

lemma move_needs_one_contact:
  "length touches \<noteq> 1 \<Longrightarrow>
     position (handleTouchMove ops snap touches m) = position m \<and>
     lastPosition (handleTouchMove ops snap touches m) = lastPosition m"
  by (simp add: handleTouchMove_def Let_def)

lemma move_needs_two_contacts:
  "length touches \<noteq> 2 \<Longrightarrow>
     scale (handleTouchMove ops snap touches m) = scale m \<and>
     initialDistance (handleTouchMove ops snap touches m) = initialDistance m"
  by (simp add: handleTouchMove_def Let_def split: list.splits)


lemma pinch_step:
  "isPinching snap \<Longrightarrow> truthy_number ops (initialDistance snap) \<Longrightarrow>
     handleTouchMove ops snap [a, b] m =
       m\<lparr> scale := num_mul ops (scale m)
                      (num_div ops (getDistance ops [a, b]) (to_number ops (initialDistance m))),
           initialDistance := Some (getDistance ops [a, b]) \<rparr>"
  by (simp add: handleTouchMove_def Let_def)

lemma view_run_Cons: "view_run ops v (e # es) = view_run ops (view_step ops v e) es"
  by (simp add: view_run_def)

lemma view_run_Nil: "view_run ops v [] = v"
  by (simp add: view_run_def)

subsection \<open>Drag\<close>





subsection \<open>Pinch\<close>

lemma pinch_events_product:
  "isPinching (rendered v) \<Longrightarrow> truthy_number ops (initialDistance (rendered v)) \<Longrightarrow>
   isPinching (current v) \<Longrightarrow> initialDistance (current v) = Some d \<Longrightarrow> num_truthy ops d \<Longrightarrow>
   \<forall>e \<in> set (butlast (pair_distances ops ps)). num_truthy ops e \<Longrightarrow>
     scale (current (view_run ops v (pinch_events ps))) =
       foldl (num_mul ops) (scale (current v)) (ratios ops d (pair_distances ops ps)) \<and>
     initialDistance (current (view_run ops v (pinch_events ps))) =
       Some (last (d # pair_distances ops ps))"
proof (induction ps arbitrary: v d)
  case Nil
  then show ?case by (simp add: view_run_Nil pair_distances_def)
next
  case (Cons p ps)
  obtain r a b where p: "p = (r, a, b)" by (cases p)
  let ?e = "getDistance ops [a, b]"
  let ?w = "if r then v\<lparr> rendered := current v \<rparr> else v"
  let ?v = "?w\<lparr> current := handleTouchMove ops (rendered ?w) [a, b] (current ?w) \<rparr>"
  have ds: "pair_distances ops (p # ps) = ?e # pair_distances ops ps"
    by (simp add: pair_distances_def p del: getDistance.simps)
  have run: "view_run ops v (pinch_events (p # ps)) = view_run ops ?v (pinch_events ps)"
    by (simp add: p view_run_Cons del: getDistance.simps)
  have snap: "isPinching (rendered ?w)" "truthy_number ops (initialDistance (rendered ?w))"
    using Cons.prems(1-5) by simp_all
  have cur: "current ?w = current v"
    by simp
  have step: "isPinching (rendered ?v)" "truthy_number ops (initialDistance (rendered ?v))"
    "isPinching (current ?v)" "initialDistance (current ?v) = Some ?e"
    "scale (current ?v) = num_mul ops (scale (current v)) (num_div ops ?e d)"
    using snap Cons.prems(3,4) by (simp_all add: pinch_step cur del: getDistance.simps)
  have main: "scale (current (view_run ops ?v (pinch_events ps))) =
       foldl (num_mul ops) (scale (current ?v)) (ratios ops ?e (pair_distances ops ps)) \<and>
     initialDistance (current (view_run ops ?v (pinch_events ps))) =
       Some (last (?e # pair_distances ops ps))"
  proof (cases "ps = []")
    case True
    with step(4) show ?thesis
      by (simp add: view_run_Nil pair_distances_def del: getDistance.simps)
  next
    case False
    then have "pair_distances ops ps \<noteq> []"
      by (simp add: pair_distances_def)
    with Cons.prems(6) have e: "num_truthy ops ?e"
      and rest: "\<forall>e \<in> set (butlast (pair_distances ops ps)). num_truthy ops e"
      by (simp_all add: ds del: getDistance.simps)
    from Cons.IH [OF step(1) step(2) step(3) step(4) e rest] show ?thesis .
  qed
  with step(5) show ?case
    by (simp add: run ds del: getDistance.simps)
qed

text \<open>
  C2 fails as stated: start a pinch with the contacts 5 apart, move both contacts onto
  one point (distance 0), then move them 5 apart again, every event rendered before the
  next. The second move is skipped because the baseline is 0, so the scale ends at 0,
  while the initial scale times \<open>final distance / initial distance\<close> is 1/2.
\<close>

theorem pinch_compressed_counterexample:
  "scale (current (view_run exact_numbers (initial_view exact_numbers)
     (Handle (TouchStart [touch_at 0 0, touch_at 0 5]) # Render #
      pinch_events [(True, touch_at 1 1, touch_at 1 1), (True, touch_at 0 0, touch_at 0 5)]))) = 0 \<and>
   scale (initialMascot exact_numbers) *
     (getDistance exact_numbers [touch_at 0 0, touch_at 0 5] /
      getDistance exact_numbers [touch_at 0 0, touch_at 0 5]) = 1 / 2"
  by (simp add: view_run_def initial_view_def initialMascot_def handleTouchStart_def
      handleTouchMove_def)

text \<open>
  C2 (as amended): a pinch gesture is a touch-start with two contact points, whose
  distance \<open>d0\<close> becomes the baseline, rendered, followed by two-contact move events with
  distances \<open>ds\<close>, rendered before the next or not. If the baseline and every distance
  but the last are truthy (not zero, not \<open>NaN\<close>), the final scale is the initial scale multiplied, one
  move after the other, by the ratios \<open>distance\<^sub>i / distance\<^sub>i\<^sub>-\<^sub>1\<close>, in the arithmetic of the
  platform, and the stored baseline ends at the final distance.
\<close>

theorem pinch_scale_stepwise:
  assumes "num_truthy ops (getDistance ops [a0, b0])"
    and "\<forall>e \<in> set (butlast (pair_distances ops ps)). num_truthy ops e"
  shows "scale (current (view_run ops v
             (Handle (TouchStart [a0, b0]) # Render # pinch_events ps))) =
           foldl (num_mul ops) (scale (current v))
             (ratios ops (getDistance ops [a0, b0]) (pair_distances ops ps)) \<and>
         initialDistance (current (view_run ops v
             (Handle (TouchStart [a0, b0]) # Render # pinch_events ps))) =
           Some (last (getDistance ops [a0, b0] # pair_distances ops ps))"
proof -
  let ?m = "handleTouchStart ops [a0, b0] (current v)"
  let ?v = "v\<lparr> current := ?m, rendered := ?m \<rparr>"
  have run: "view_run ops v (Handle (TouchStart [a0, b0]) # Render # pinch_events ps) =
      view_run ops ?v (pinch_events ps)"
    by (simp add: view_run_Cons)
  have start: "isPinching (rendered ?v)" "truthy_number ops (initialDistance (rendered ?v))"
    "isPinching (current ?v)" "initialDistance (current ?v) = Some (getDistance ops [a0, b0])"
    "scale (current ?v) = scale (current v)"
    using assms(1) by (simp_all add: start_two_touches)
  from pinch_events_product [OF start(1) start(2) start(3) start(4) assms(1) assms(2)] start(5)
  show ?thesis by (simp add: run)
qed

theorem pinch_scale_stepwise_witness:
  "num_truthy exact_numbers (getDistance exact_numbers [touch_at 0 0, touch_at 0 5]) \<and>
   list_all (num_truthy exact_numbers)
     (butlast (pair_distances exact_numbers
        [(True, touch_at 0 0, touch_at 0 10), (False, touch_at 0 0, touch_at 0 20)])) \<and>
   scale (current (view_run exact_numbers (initial_view exact_numbers)
     (Handle (TouchStart [touch_at 0 0, touch_at 0 5]) # Render #
      pinch_events [(True, touch_at 0 0, touch_at 0 10), (False, touch_at 0 0, touch_at 0 20)]))) = 2"
proof -
  have d0: "num_truthy exact_numbers (getDistance exact_numbers [touch_at 0 0, touch_at 0 5])"
    by simp
  have ds: "\<forall>e \<in> set (butlast (pair_distances exact_numbers
        [(True, touch_at 0 0, touch_at 0 10), (False, touch_at 0 0, touch_at 0 20)])).
      num_truthy exact_numbers e"
    by (simp add: pair_distances_def)
  from pinch_scale_stepwise [OF d0 ds, of "initial_view exact_numbers"] d0 ds show ?thesis
    by (simp add: pair_distances_def initial_view_def initialMascot_def)
qed

subsection \<open>The sign of the scale\<close>

lemma getDistance_closed: "sign_closed ops P \<Longrightarrow> P (getDistance ops ts)"
  by (induction ops ts rule: getDistance.induct) (simp_all add: sign_closed_def)

lemma to_number_closed:
  "sign_closed ops P \<Longrightarrow> (case d of None \<Rightarrow> True | Some x \<Rightarrow> P x) \<Longrightarrow> P (to_number ops d)"
  by (cases d) (simp_all add: sign_closed_def)

lemma scale_closed_step:
  assumes "sign_closed ops P"
    and "P (scale (current v))"
    and "case initialDistance (current v) of None \<Rightarrow> True | Some x \<Rightarrow> P x"
  shows "P (scale (current (view_step ops v e))) \<and>
         (case initialDistance (current (view_step ops v e)) of None \<Rightarrow> True | Some x \<Rightarrow> P x)"
proof (cases e)
  case Render
  with assms show ?thesis by simp
next
  case (Handle te)
  show ?thesis
  proof (cases te)
    case (TouchStart touches)
    with Handle assms getDistance_closed [OF assms(1), of touches] show ?thesis
      by (simp add: handleTouchStart_def split: list.splits)
  next
    case (TouchMove touches)
    have "P (num_mul ops (scale (current v))
        (num_div ops (getDistance ops touches) (to_number ops (initialDistance (current v)))))"
      using assms(1,2) getDistance_closed [OF assms(1), of touches]
        to_number_closed [OF assms(1) assms(3)]
      by (simp add: sign_closed_def)
    with TouchMove Handle assms getDistance_closed [OF assms(1), of touches] show ?thesis
      by (simp add: handleTouchMove_def Let_def split: list.splits)
  next
    case (TouchEnd touches)
    with Handle assms show ?thesis
      by (simp add: handleTouchEnd_def)
  qed
qed

lemma scale_closed_run:
  "sign_closed ops P \<Longrightarrow> P (scale (current v)) \<Longrightarrow>
   (case initialDistance (current v) of None \<Rightarrow> True | Some x \<Rightarrow> P x) \<Longrightarrow>
     P (scale (current (view_run ops v es)))"
proof (induction es arbitrary: v)
  case Nil
  then show ?case by (simp add: view_run_Nil)
next
  case (Cons e es)
  from scale_closed_step [OF Cons.prems(1) Cons.prems(2) Cons.prems(3), of e]
  have "P (scale (current (view_step ops v e)))"
    and "case initialDistance (current (view_step ops v e)) of None \<Rightarrow> True | Some x \<Rightarrow> P x"
    by simp_all
  from Cons.IH [OF Cons.prems(1) this] show ?case
    by (simp add: view_run_Cons)
qed

text \<open>
  C3 fails as stated: from the initial state, a pinch that starts with the contacts 5
  apart and then moves both onto one point multiplies the scale by 0.
\<close>

theorem scale_positive_counterexample:
  "\<not> 0 < scale (current (view_run exact_numbers (initial_view exact_numbers)
            [Handle (TouchStart [touch_at 0 0, touch_at 0 5]), Render,
             Handle (TouchMove [touch_at 1 1, touch_at 1 1]), Render]))"
  by (simp add: view_run_def initial_view_def initialMascot_def handleTouchStart_def
      handleTouchMove_def)

text \<open>
  C3 (as amended): from the initial overlay state (scale 0.5), after every sequence of
  touch-start, touch-move and touch-end events, however rendering falls between them, the
  scale is never negative: it lies in every set of numbers \<open>P\<close> that holds 0, 0.5 and all
  squares and is closed under addition, multiplication, division and square root, as the
  doubles that are not negative (+0, the positive numbers, +Infinity, \<open>NaN\<close>) are.
\<close>

theorem scale_never_negative:
  assumes "sign_closed ops P"
  shows "P (scale (current (view_run ops (initial_view ops) es)))"
proof -
  from assms have "P (scale (current (initial_view ops)))"
    by (simp add: initial_view_def initialMascot_def sign_closed_def)
  moreover have "case initialDistance (current (initial_view ops)) of
      None \<Rightarrow> True | Some x \<Rightarrow> P x"
    by (simp add: initial_view_def initialMascot_def)
  ultimately show ?thesis
    by (rule scale_closed_run [OF assms])
qed

theorem scale_never_negative_witness:
  "sign_closed exact_numbers (\<lambda>a. 0 \<le> a) \<and>
   0 \<le> scale (current (view_run exact_numbers (initial_view exact_numbers)
          [Handle (TouchStart [touch_at 0 0, touch_at 0 5]), Render,
           Handle (TouchMove [touch_at 0 0, touch_at 0 10]),
           Handle (TouchMove [touch_at 1 1, touch_at 1 1]), Handle (TouchEnd [])]))"
proof -
  have closed: "sign_closed exact_numbers (\<lambda>a. 0 \<le> a)"
    by (simp add: sign_closed_def)
  from scale_never_negative [OF closed] closed show ?thesis
    by simp
qed

subsection \<open>Gesture flags\<close>

lemma flags_run:
  "isDragging (current (view_run ops v es)) = start_seen 1 (isDragging (current v)) es \<and>
   isPinching (current (view_run ops v es)) = start_seen 2 (isPinching (current v)) es"
proof (induction es arbitrary: v)
  case Nil
  show ?case by (simp add: view_run_Nil)
next
  case (Cons e es)
  show ?case
  proof (cases e)
    case Render
    with Cons.IH [of "view_step ops v e"] show ?thesis
      by (simp add: view_run_Cons)
  next
    case (Handle te)
    with Cons.IH [of "view_step ops v e"] show ?thesis
      by (cases te) (simp_all add: view_run_Cons start_flags move_flags end_flags)
  qed
qed

text \<open>
  C4 fails as stated: one finger goes down, then a second one. After the two touch-start
  events, the second of which carries two contact points, both the drag flag and the
  pinch flag are set.
\<close>

theorem gesture_exclusive_counterexample:
  "length [touch_at 0 0, touch_at 0 5] = 2 \<and>
   isDragging (current (view_run exact_numbers (initial_view exact_numbers)
     [Handle (TouchStart [touch_at 0 0]), Render,
      Handle (TouchStart [touch_at 0 0, touch_at 0 5]), Render])) \<and>
   isPinching (current (view_run exact_numbers (initial_view exact_numbers)
     [Handle (TouchStart [touch_at 0 0]), Render,
      Handle (TouchStart [touch_at 0 0, touch_at 0 5]), Render]))"
  by (simp add: view_run_def handleTouchStart_def)

text \<open>
  C4 (as amended): the gesture state is two independent flags. After every sequence of
  touch events, however rendering falls between them, the drag flag is set exactly when a
  touch-start with exactly one contact point has been handled since the last touch-end,
  and the pinch flag exactly when a touch-start with exactly two has; both can be set
  together. A move event never changes a flag; it changes position and drag baseline only
  if it carries exactly one contact point, and scale and pinch baseline only if it
  carries exactly two, so never both.
\<close>

theorem gesture_flags_follow_starts:
  "isDragging (current (view_run ops (initial_view ops) es)) = start_seen 1 False es \<and>
   isPinching (current (view_run ops (initial_view ops) es)) = start_seen 2 False es \<and>
   isDragging (handleTouchMove ops snap touches m) = isDragging m \<and>
   isPinching (handleTouchMove ops snap touches m) = isPinching m \<and>
   (length touches \<noteq> 1 \<longrightarrow>
      position (handleTouchMove ops snap touches m) = position m \<and>
      lastPosition (handleTouchMove ops snap touches m) = lastPosition m) \<and>
   (length touches \<noteq> 2 \<longrightarrow>
      scale (handleTouchMove ops snap touches m) = scale m \<and>
      initialDistance (handleTouchMove ops snap touches m) = initialDistance m)"
  using flags_run [of ops "initial_view ops" es]
    move_needs_one_contact [of touches ops snap m]
    move_needs_two_contacts [of touches ops snap m]
  by (simp add: move_flags initial_view_def initialMascot_def)

theorem gesture_flags_follow_starts_witness:
  "start_seen 2 False
     [Handle (TouchStart [touch_at 0 0, touch_at 0 5]), Render,
      Handle (TouchMove [touch_at 0 0]) :: real view_event] \<and>
   isPinching (current (view_run exact_numbers (initial_view exact_numbers)
     [Handle (TouchStart [touch_at 0 0, touch_at 0 5]), Render,
      Handle (TouchMove [touch_at 0 0])])) \<and>
   length [touch_at 3 3, touch_at 4 4] \<noteq> 1 \<and>
   position (handleTouchMove exact_numbers
       (handleTouchStart exact_numbers [touch_at 0 0] (initialMascot exact_numbers))
       [touch_at 3 3, touch_at 4 4]
       (handleTouchStart exact_numbers [touch_at 0 0] (initialMascot exact_numbers))) =
     position (handleTouchStart exact_numbers [touch_at 0 0] (initialMascot exact_numbers))"
proof -
  have len: "length [touch_at 3 3, touch_at 4 4] \<noteq> 1"
    by simp
  have seen: "start_seen 2 False
     [Handle (TouchStart [touch_at 0 0, touch_at 0 5]), Render,
      Handle (TouchMove [touch_at 0 0]) :: real view_event]"
    by simp
  from gesture_flags_follow_starts
    [of exact_numbers
        "[Handle (TouchStart [touch_at 0 0, touch_at 0 5]), Render,
          Handle (TouchMove [touch_at 0 0])]"
        "handleTouchStart exact_numbers [touch_at 0 0] (initialMascot exact_numbers)"
        "[touch_at 3 3, touch_at 4 4]"
        "handleTouchStart exact_numbers [touch_at 0 0] (initialMascot exact_numbers)"]
    len seen
  show ?thesis by blast
qed

subsection \<open>The baseline guard\<close>

text \<open>
  C5, at the failing input: the guard of the scale update tests the baseline of the
  rendered snapshot, and the update divides by the stored one. When the snapshot still
  has a truthy baseline and the stored baseline is \<open>null\<close> or falsy (zero), a two-contact
  move is not skipped: the scale is multiplied by the new distance divided by that
  baseline, and the baseline is overwritten.
\<close>

theorem stale_guard_divides_by_stored_baseline:
  assumes "isPinching snap" and "truthy_number ops (initialDistance snap)"
    and "\<not> truthy_number ops (initialDistance m)"
  shows "handleTouchMove ops snap [a, b] m =
           m\<lparr> scale := num_mul ops (scale m)
                          (num_div ops (getDistance ops [a, b]) (to_number ops (initialDistance m))),
               initialDistance := Some (getDistance ops [a, b]) \<rparr>"
  using assms(1,2) by (rule pinch_step)

text \<open>
  The failing input: a pinch starts with the contacts 5 apart and is rendered; a move
  brings both contacts onto one point, which stores the baseline 0; a second move, 5
  apart, is handled before the next render. The snapshot still has the baseline 5, so the
  update is applied and the baseline becomes 5. The scale it stores is 0 * (5 / 0), which
  is \<open>NaN\<close> in doubles; the reals have no such value, so only the baselines are stated.
\<close>

theorem stale_guard_divides_by_stored_baseline_witness:
  "isPinching (rendered (view_run exact_numbers (initial_view exact_numbers)
     [Handle (TouchStart [touch_at 0 0, touch_at 0 5]), Render,
      Handle (TouchMove [touch_at 1 1, touch_at 1 1])])) \<and>
   initialDistance (rendered (view_run exact_numbers (initial_view exact_numbers)
     [Handle (TouchStart [touch_at 0 0, touch_at 0 5]), Render,
      Handle (TouchMove [touch_at 1 1, touch_at 1 1])])) = Some 5 \<and>
   initialDistance (current (view_run exact_numbers (initial_view exact_numbers)
     [Handle (TouchStart [touch_at 0 0, touch_at 0 5]), Render,
      Handle (TouchMove [touch_at 1 1, touch_at 1 1])])) = Some 0 \<and>
   initialDistance (current (view_run exact_numbers (initial_view exact_numbers)
     [Handle (TouchStart [touch_at 0 0, touch_at 0 5]), Render,
      Handle (TouchMove [touch_at 1 1, touch_at 1 1]),
      Handle (TouchMove [touch_at 0 0, touch_at 0 5])])) = Some 5"
proof -
  let ?v = "view_run exact_numbers (initial_view exact_numbers)
     [Handle (TouchStart [touch_at 0 0, touch_at 0 5]), Render,
      Handle (TouchMove [touch_at 1 1, touch_at 1 1])]"
  have five: "sqrt 25 = 5"
    by (rule real_sqrt_unique) simp_all
  have snap: "isPinching (rendered ?v)" "initialDistance (rendered ?v) = Some 5"
    by (simp_all add: view_run_def initial_view_def initialMascot_def handleTouchStart_def
        handleTouchMove_def five)
  have cur: "initialDistance (current ?v) = Some 0"
    by (simp add: view_run_def initial_view_def initialMascot_def handleTouchStart_def
        handleTouchMove_def)
  have next_move: "view_run exact_numbers (initial_view exact_numbers)
     [Handle (TouchStart [touch_at 0 0, touch_at 0 5]), Render,
      Handle (TouchMove [touch_at 1 1, touch_at 1 1]),
      Handle (TouchMove [touch_at 0 0, touch_at 0 5])] =
     ?v\<lparr> current := handleTouchMove exact_numbers (rendered ?v)
            [touch_at 0 0, touch_at 0 5] (current ?v) \<rparr>"
    by (simp add: view_run_def)
  from snap cur have guard: "truthy_number exact_numbers (initialDistance (rendered ?v))"
    and stored: "\<not> truthy_number exact_numbers (initialDistance (current ?v))"
    by simp_all
  from stale_guard_divides_by_stored_baseline [OF snap(1) guard stored,
      of "touch_at 0 0" "touch_at 0 5"] snap cur
  show ?thesis
    by (simp add: next_move five)
qed

subsection \<open>Permission\<close>

lemma capture_keeps_rest:
  "mascot (snd (handleCapture toDataURL r st)) = mascot st \<and>
   permissionGranted (snd (handleCapture toDataURL r st)) = permissionGranted st"
  by (simp add: handleCapture_def Let_def split: option.splits)

lemma step_keeps_permission: "permissionGranted (step toDataURL st ev) = permissionGranted st"
  by (cases ev) (simp_all add: capture_keeps_rest handleBackToCamera_def)

lemma run_keeps_permission: "permissionGranted (run toDataURL st es) = permissionGranted st"
  by (induction es arbitrary: st) (simp_all add: run_def step_keeps_permission)

lemma setupCamera_permission:
  "permissionGranted (setupCamera env st) =
     Some (hasGetUserMedia env \<and> \<not> isl (getUserMedia env))"
  by (simp add: setupCamera_def setupCamera_calls_def split: sum.splits)

text \<open>
  C6: the permission state is pending (\<open>None\<close>) at mount and through every page event
  \<open>es1\<close> before camera setup completes; \<open>setupCamera\<close> calls the setter exactly once, with
  granted when \<open>getUserMedia\<close> exists and yields a stream and with denied when it is
  missing or the request throws; and through every page event \<open>es2\<close> afterwards the value
  stays what setup wrote, so it is never pending again.
\<close>

theorem permission_set_once:
  "permissionGranted (run toDataURL initialState es1) = None \<and>
   length (setupCamera_calls env) = 1 \<and>
   setupCamera_calls env = [hasGetUserMedia env \<and> \<not> isl (getUserMedia env)] \<and>
   permissionGranted (setupCamera env (run toDataURL initialState es1)) =
     Some (hasGetUserMedia env \<and> \<not> isl (getUserMedia env)) \<and>
   permissionGranted (run toDataURL (setupCamera env (run toDataURL initialState es1)) es2) =
     Some (hasGetUserMedia env \<and> \<not> isl (getUserMedia env))"
proof -
  have "setupCamera_calls env = [hasGetUserMedia env \<and> \<not> isl (getUserMedia env)]"
    by (simp add: setupCamera_calls_def split: sum.splits)
  then show ?thesis
    by (simp add: run_keeps_permission setupCamera_permission initialState_def)
qed

subsection \<open>Capture and download\<close>



text \<open>
  C9: if the video, the overlay image or the canvas is not mounted, capture does
  nothing: the page state (captured image, overlay, permission) and the refs are as
  before.
\<close>

theorem capture_noop_when_unmounted:
  assumes "videoRef r = None \<or> imageRef r = None \<or> canvasRef r = None"
  shows "handleCapture toDataURL r st = (r, st)"
  using assms
  by (auto simp: handleCapture_def split: option.splits)

theorem capture_noop_when_unmounted_witness:
  "canvasRef (sample_refs\<lparr> canvasRef := None \<rparr>) = None \<and>
   handleCapture (\<lambda>c. ''data:,'') (sample_refs\<lparr> canvasRef := None \<rparr>) initialState =
     (sample_refs\<lparr> canvasRef := None \<rparr>, initialState)"
  using capture_noop_when_unmounted
    [of "sample_refs\<lparr> canvasRef := None \<rparr>" "\<lambda>c. ''data:,''" initialState]
  by simp

lemma step_keeps_image_nonempty:
  "\<forall>canvas. toDataURL canvas \<noteq> [] \<Longrightarrow> capturedImage st \<noteq> Some [] \<Longrightarrow>
     capturedImage (step toDataURL st ev) \<noteq> Some []"
  by (cases ev)
     (auto simp: handleCapture_def Let_def handleBackToCamera_def split: option.splits)

lemma run_keeps_image_nonempty:
  "\<forall>canvas. toDataURL canvas \<noteq> [] \<Longrightarrow> capturedImage st \<noteq> Some [] \<Longrightarrow>
     capturedImage (run toDataURL st es) \<noteq> Some []"
  by (induction es arbitrary: st) (simp_all add: run_def step_keeps_image_nonempty)

lemma download_actions:
  "capturedImage st \<noteq> Some [] \<Longrightarrow>
     handleDownload st =
       (case capturedImage st of
          None \<Rightarrow> []
        | Some url \<Rightarrow> [CreateElement ''a'', SetHref url, SetDownload ''mascot-photo.png'',
                       AppendChild, Click, RemoveChild])"
  by (auto simp: handleDownload_def split: option.splits)

text \<open>
  C10: with no captured image (\<open>null\<close>) the download handler performs no DOM operation,
  and the page state after the download event is the state before it. In every state the
  page reaches from its initial state, the handler performs the save (the link is
  created, pointed at the image, named, clicked and removed) if and only if a captured
  image is present. The platform's \<open>toDataURL\<close> never returns the empty string.
\<close>

theorem download_only_with_image:
  assumes "\<forall>canvas. toDataURL canvas \<noteq> []"
  shows "(capturedImage st = None \<longrightarrow>
            handleDownload st = [] \<and> step toDataURL st Download = st) \<and>
         (handleDownload (run toDataURL initialState es) \<noteq> [] \<longleftrightarrow>
            capturedImage (run toDataURL initialState es) \<noteq> None) \<and>
         (\<forall>url. capturedImage (run toDataURL initialState es) = Some url \<longrightarrow>
            handleDownload (run toDataURL initialState es) =
              [CreateElement ''a'', SetHref url, SetDownload ''mascot-photo.png'',
               AppendChild, Click, RemoveChild]) \<and>
         step toDataURL (run toDataURL initialState es) Download = run toDataURL initialState es"
proof -
  have "capturedImage initialState \<noteq> Some []"
    by (simp add: initialState_def)
  from run_keeps_image_nonempty [OF assms this]
  have "capturedImage (run toDataURL initialState es) \<noteq> Some []" .
  from download_actions [OF this] show ?thesis
    by (auto simp: handleDownload_def split: option.splits)
qed

theorem download_only_with_image_witness:
  "(\<forall>canvas :: canvas_el. ''data:,'' \<noteq> []) \<and>
   capturedImage initialState = None \<and>
   handleDownload initialState = [] \<and>
   capturedImage (run (\<lambda>c. ''data:,'') initialState [Capture sample_refs]) = Some ''data:,'' \<and>
   handleDownload (run (\<lambda>c. ''data:,'') initialState [Capture sample_refs]) =
     [CreateElement ''a'', SetHref ''data:,'', SetDownload ''mascot-photo.png'',
      AppendChild, Click, RemoveChild]"
proof -
  have enc: "\<forall>canvas :: canvas_el. (\<lambda>c. ''data:,'') canvas \<noteq> []"
    by simp
  have none: "capturedImage initialState = None"
    by (simp add: initialState_def)
  have img: "capturedImage (run (\<lambda>c. ''data:,'') initialState [Capture sample_refs]) = Some ''data:,''"
    by (simp add: run_def handleCapture_def Let_def set_canvas_size_def drawImage_def)
  from download_only_with_image [OF enc, of initialState "[Capture sample_refs]"] none img
  show ?thesis by simp
qed

end
